theory Spec2Isabelle
  imports Complex_Main
begin

section \<open>The AdFlow ad selection worker\<close>

text \<open>
  A shallow embedding of \<^verbatim>\<open>project1/student-starter/worker/lambda_handler.py\<close>.
  The module holds three scoring tables and four operations. In the starter each
  operation consists of a docstring followed by one statement,
  \<^verbatim>\<open>raise NotImplementedError("Task n: Implement ...")\<close>; the embedding keeps that body.

  Python floats are binary64. The tables and the bid amounts are modelled by the exact
  rationals their decimal literals denote; no operation of the module does arithmetic on them.
\<close>

subsection \<open>Data\<close>

text \<open>A bid: the dict with keys \<^verbatim>\<open>advertiser_id\<close>, \<^verbatim>\<open>bid_amount\<close>, \<^verbatim>\<open>category\<close>.\<close>

record bid =
  advertiser_id :: string
  bid_amount :: rat
  category :: string

text \<open>An opportunity message, with the keys the test fixture gives it.\<close>

record opportunity =
  opportunity_id :: string
  timestamp :: string
  user_id :: string
  content_category :: string
  device_type :: string
  region :: string
  bids :: "bid list"

text \<open>The dict \<^verbatim>\<open>select_winner\<close> is documented to return.\<close>

record winner =
  winning_advertiser_id :: string
  winning_bid_amount :: rat
  winning_score :: rat
  score_margin :: rat

text \<open>The result record of \<^verbatim>\<open>process_opportunity\<close>: the winner's four fields and three more.\<close>

record auction_result = winner +
  result_opportunity_id :: string
  result_content_category :: string
  processed_at :: string

text \<open>An SQS event: a \<^verbatim>\<open>Records\<close> list whose entries have a \<^verbatim>\<open>messageId\<close> and a JSON \<^verbatim>\<open>body\<close>.\<close>

record sqs_record =
  messageId :: string
  body :: string

record event =
  Records :: "sqs_record list"

text \<open>The Lambda context; the test passes \<^verbatim>\<open>None\<close>.\<close>

record lambda_context =
  aws_request_id :: string
  function_name :: string

text \<open>The partial batch failure response.\<close>

record item_failure =
  itemIdentifier :: string

record batch_response =
  batchItemFailures :: "item_failure list"

text \<open>
  The two downstream sinks behind the module-level clients \<^verbatim>\<open>sqs\<close> and \<^verbatim>\<open>dynamodb\<close>:
  the messages sent to \<^verbatim>\<open>RESULTS_QUEUE_URL\<close>, in order, and the items of the table
  \<^verbatim>\<open>DYNAMO_TABLE_NAME\<close>, keyed by \<^verbatim>\<open>opportunity_id\<close>.
\<close>

record sinks =
  results_queue :: "auction_result list"
  results_table :: "(string \<times> auction_result) list"

definition empty_sinks :: sinks where
  "empty_sinks = \<lparr>results_queue = [], results_table = []\<rparr>"

text \<open>The only exception the module raises itself, with its message.\<close>

datatype error = NotImplementedError string

subsection \<open>Scoring constants\<close>

text \<open>Relevance multiplier: (content category, advertiser category) to multiplier.\<close>

definition RELEVANCE_MAP :: "((string \<times> string) \<times> rat) list" where
  "RELEVANCE_MAP =
    [((''sports'', ''sportswear''), 1.4),
     ((''sports'', ''energy_drink''), 1.3),
     ((''finance'', ''fintech''), 1.5),
     ((''finance'', ''insurance''), 1.3),
     ((''entertainment'', ''streaming''), 1.4),
     ((''entertainment'', ''gaming''), 1.3),
     ((''lifestyle'', ''beauty''), 1.3),
     ((''lifestyle'', ''travel''), 1.2)]"

text \<open>Time bonus: (start hour inclusive, end hour exclusive, bonus).\<close>

definition TIME_WINDOWS :: "(nat \<times> nat \<times> rat) list" where
  "TIME_WINDOWS = [(6, 9, 1.20), (12, 14, 1.15), (19, 23, 1.25)]"

text \<open>Device bonus.\<close>

definition DEVICE_BONUS :: "(string \<times> rat) list" where
  "DEVICE_BONUS = [(''mobile'', 1.1), (''desktop'', 1.0)]"

subsection \<open>The four operations\<close>

text \<open>Task 1. The body is the single \<^verbatim>\<open>raise\<close>; neither argument is read.\<close>

definition compute_score :: "bid \<Rightarrow> opportunity \<Rightarrow> error + rat" where
  "compute_score b opp = Inl (NotImplementedError ''Task 1: Implement compute_score'')"

text \<open>Task 2. \<^verbatim>\<open>None\<close> is the documented result for no valid bids, hence the option.\<close>

definition select_winner :: "opportunity \<Rightarrow> error + winner option" where
  "select_winner opp = Inl (NotImplementedError ''Task 2: Implement select_winner'')"

text \<open>
  Task 3. The docstring lets the operation send its result onward, so the sinks are
  threaded through; the body raises before touching them.
\<close>

definition process_opportunity ::
    "opportunity \<Rightarrow> sinks \<Rightarrow> (error + auction_result option) \<times> sinks" where
  "process_opportunity opp s =
    (Inl (NotImplementedError ''Task 3: Implement process_opportunity''), s)"

text \<open>Task 4. The Lambda entry point; it raises before reading a record.\<close>

definition lambda_handler ::
    "event \<Rightarrow> lambda_context option \<Rightarrow> sinks \<Rightarrow> (error + batch_response) \<times> sinks" where
  "lambda_handler ev ctx s =
    (Inl (NotImplementedError ''Task 4: Implement lambda_handler''), s)"

subsection \<open>The documented scoring formula\<close>

text \<open>
  These definitions do not embed code: they follow the words of the specification and of
  the docstring of \<^verbatim>\<open>compute_score\<close>
  (\<^verbatim>\<open>score = bid_amount * relevance_multiplier * time_bonus * device_bonus\<close>), read over the
  three tables above, and exist only to be compared with the embedded operations. The hour
  of day is a parameter, since the module has no code that derives it from the timestamp.
\<close>

definition spec_relevance_multiplier :: "string \<Rightarrow> string \<Rightarrow> rat" where
  "spec_relevance_multiplier cc cat =
    (case map_of RELEVANCE_MAP (cc, cat) of None \<Rightarrow> 1 | Some m \<Rightarrow> m)"

fun spec_window_bonus :: "(nat \<times> nat \<times> rat) list \<Rightarrow> nat \<Rightarrow> rat" where
  "spec_window_bonus [] h = 1"
| "spec_window_bonus ((lo, hi, bonus) # ws) h =
    (if lo \<le> h \<and> h < hi then bonus else spec_window_bonus ws h)"

definition spec_time_bonus :: "nat \<Rightarrow> rat" where
  "spec_time_bonus h = spec_window_bonus TIME_WINDOWS h"

definition spec_device_bonus :: "string \<Rightarrow> rat" where
  "spec_device_bonus d = (case map_of DEVICE_BONUS d of None \<Rightarrow> 1 | Some m \<Rightarrow> m)"

definition spec_score :: "nat \<Rightarrow> bid \<Rightarrow> opportunity \<Rightarrow> rat" where
  "spec_score h b opp =
    bid_amount b * spec_relevance_multiplier (content_category opp) (category b)
      * spec_time_bonus h * spec_device_bonus (device_type opp)"

subsection \<open>The fixtures of the test module\<close>

text \<open>The bids and the opportunity of \<^verbatim>\<open>worker/tests/test_handler.py\<close>.\<close>

definition bid_adv_001 :: bid where
  "bid_adv_001 = \<lparr>advertiser_id = ''adv_001'', bid_amount = 3.50, category = ''sportswear''\<rparr>"

definition bid_adv_002 :: bid where
  "bid_adv_002 = \<lparr>advertiser_id = ''adv_002'', bid_amount = 4.20, category = ''fast_food''\<rparr>"

definition bid_adv_003 :: bid where
  "bid_adv_003 = \<lparr>advertiser_id = ''adv_003'', bid_amount = 2.85, category = ''sportswear''\<rparr>"

definition SAMPLE_OPPORTUNITY :: opportunity where
  "SAMPLE_OPPORTUNITY =
    \<lparr>opportunity_id = ''test-001'',
     timestamp = ''2025-03-10T20:15:00Z'',
     user_id = ''u_12345'',
     content_category = ''sports'',
     device_type = ''mobile'',
     region = ''southeast'',
     bids = [bid_adv_001, bid_adv_002, bid_adv_003]\<rparr>"

text \<open>
  \<^verbatim>\<open>json.dumps(SAMPLE_OPPORTUNITY)\<close>, and the same with the opportunity id
  \<^verbatim>\<open>test-002\<close>: the two message bodies of \<^verbatim>\<open>test_batch_processing\<close>.
\<close>

definition body_test_001 :: string where
  \<open>body_test_001 =
    ''{"opportunity_id": "test-001", "timestamp": "2025-03-10T20:15:00Z", '' @
    ''"user_id": "u_12345", "content_category": "sports", "device_type": "mobile", '' @
    ''"region": "southeast", "bids": ['' @
    ''{"advertiser_id": "adv_001", "bid_amount": 3.5, "category": "sportswear"}, '' @
    ''{"advertiser_id": "adv_002", "bid_amount": 4.2, "category": "fast_food"}, '' @
    ''{"advertiser_id": "adv_003", "bid_amount": 2.85, "category": "sportswear"}]}''\<close>

definition body_test_002 :: string where
  \<open>body_test_002 =
    ''{"opportunity_id": "test-002", "timestamp": "2025-03-10T20:15:00Z", '' @
    ''"user_id": "u_12345", "content_category": "sports", "device_type": "mobile", '' @
    ''"region": "southeast", "bids": ['' @
    ''{"advertiser_id": "adv_001", "bid_amount": 3.5, "category": "sportswear"}, '' @
    ''{"advertiser_id": "adv_002", "bid_amount": 4.2, "category": "fast_food"}, '' @
    ''{"advertiser_id": "adv_003", "bid_amount": 2.85, "category": "sportswear"}]}''\<close>

definition test_event :: event where
  "test_event =
    \<lparr>Records = [\<lparr>messageId = ''msg-001'', body = body_test_001\<rparr>,
                \<lparr>messageId = ''msg-002'', body = body_test_002\<rparr>]\<rparr>"

subsection \<open>Further inputs\<close>

text \<open>A batch whose first body is not JSON and whose second is the fixture's.\<close>

definition malformed_first_event :: event where
  "malformed_first_event =
    \<lparr>Records = [\<lparr>messageId = ''msg-bad'', body = ''{not json''\<rparr>,
                \<lparr>messageId = ''msg-001'', body = body_test_001\<rparr>]\<rparr>"

text \<open>The fixture with no bids, as \<^verbatim>\<open>test_no_bids\<close> builds it.\<close>

definition no_bids_opportunity :: opportunity where
  "no_bids_opportunity = SAMPLE_OPPORTUNITY\<lparr>bids := []\<rparr>"

text \<open>The fixture with a single bid.\<close>

definition single_bid_opportunity :: opportunity where
  "single_bid_opportunity = SAMPLE_OPPORTUNITY\<lparr>bids := [bid_adv_001]\<rparr>"






text \<open>
  The fixture at 15:00 on a device type that \<^verbatim>\<open>DEVICE_BONUS\<close> does not list; with the
  \<^verbatim>\<open>fast_food\<close> bid no table has an entry for it.
\<close>

definition unlisted_opportunity :: opportunity where
  "unlisted_opportunity =
    SAMPLE_OPPORTUNITY\<lparr>timestamp := ''2025-03-10T15:00:00Z'', device_type := ''tablet''\<rparr>"

subsection \<open>Reading a result\<close>


section \<open>Properties\<close>

text \<open>
  C10. For every input, each of the four core operations (compute_score, select_winner,
  process_opportunity and lambda_handler) raises NotImplementedError and never returns a
  value; the operations that are given the sinks leave them as they were.
\<close>

theorem core_operations_raise_NotImplementedError:
  "compute_score b opp = Inl (NotImplementedError ''Task 1: Implement compute_score'')
   \<and> (\<nexists>v. compute_score b opp = Inr v)
   \<and> select_winner opp = Inl (NotImplementedError ''Task 2: Implement select_winner'')
   \<and> (\<nexists>v. select_winner opp = Inr v)
   \<and> process_opportunity opp s =
        (Inl (NotImplementedError ''Task 3: Implement process_opportunity''), s)
   \<and> (\<nexists>v. fst (process_opportunity opp s) = Inr v)
   \<and> lambda_handler ev ctx s =
        (Inl (NotImplementedError ''Task 4: Implement lambda_handler''), s)
   \<and> (\<nexists>v. fst (lambda_handler ev ctx s) = Inr v)"
  by (simp add: compute_score_def select_winner_def process_opportunity_def
      lambda_handler_def)

text \<open>
  C1. compute_score(bid, opportunity) returns bid_amount * relevance_multiplier * time_bonus
  * device_bonus, with the factors taken from RELEVANCE_MAP, TIME_WINDOWS and DEVICE_BONUS;
  for the bid of 3.50 with relevance 1.4, time bonus 1.25 and device bonus 1.1 the score is
  6.7375.

  On the input of \<^verbatim>\<open>test_matched_category_evening_mobile\<close> the three tables give these
  factors and the documented formula gives 6.7375, but compute_score raises
  NotImplementedError and returns no score.
\<close>

theorem compute_score_matched_evening_mobile_raises:
  "spec_relevance_multiplier (content_category SAMPLE_OPPORTUNITY) (category bid_adv_001) = 1.4
   \<and> spec_time_bonus 20 = 1.25
   \<and> spec_device_bonus (device_type SAMPLE_OPPORTUNITY) = 1.1
   \<and> spec_score 20 bid_adv_001 SAMPLE_OPPORTUNITY = 6.7375
   \<and> compute_score bid_adv_001 SAMPLE_OPPORTUNITY =
        Inl (NotImplementedError ''Task 1: Implement compute_score'')
   \<and> compute_score bid_adv_001 SAMPLE_OPPORTUNITY
        \<noteq> Inr (spec_score 20 bid_adv_001 SAMPLE_OPPORTUNITY)"
  by (simp add: compute_score_def spec_score_def spec_relevance_multiplier_def
      spec_time_bonus_def spec_device_bonus_def RELEVANCE_MAP_def TIME_WINDOWS_def
      DEVICE_BONUS_def bid_adv_001_def SAMPLE_OPPORTUNITY_def)

text \<open>
  C2. lambda_handler processes every item of a batch: no exception raised for one item
  propagates out of the handler, and per-item errors become failed-item entries of the
  returned outcome.

  On a batch of two records, the first with a malformed body, lambda_handler itself raises
  NotImplementedError: the exception leaves the handler, no outcome is returned (so no
  failed-item entry for the malformed record either) and nothing reaches the sinks.
\<close>

theorem lambda_handler_malformed_first_raises:
  "length (Records malformed_first_event) = 2
   \<and> fst (lambda_handler malformed_first_event None empty_sinks) =
        Inl (NotImplementedError ''Task 4: Implement lambda_handler'')
   \<and> fst (lambda_handler malformed_first_event None empty_sinks)
        \<noteq> Inr \<lparr>batchItemFailures = [\<lparr>itemIdentifier = ''msg-bad''\<rparr>]\<rparr>
   \<and> (\<nexists>r. fst (lambda_handler malformed_first_event None empty_sinks) = Inr r)
   \<and> snd (lambda_handler malformed_first_event None empty_sinks) = empty_sinks"
  by (simp add: lambda_handler_def malformed_first_event_def)

text \<open>
  C3. The outcome returned by lambda_handler lists exactly the failed items; a batch of N
  well-formed opportunities yields an empty failed-item list and N result records in each
  of the two sinks.

  On the batch of \<^verbatim>\<open>test_batch_processing\<close>, two well-formed opportunities, lambda_handler
  returns no outcome, in particular not the one with the empty list, and the queue and the
  table hold no record afterwards instead of two.
\<close>

theorem lambda_handler_test_batch_raises:
  "length (Records test_event) = 2
   \<and> lambda_handler test_event None empty_sinks =
        (Inl (NotImplementedError ''Task 4: Implement lambda_handler''), empty_sinks)
   \<and> fst (lambda_handler test_event None empty_sinks) \<noteq> Inr \<lparr>batchItemFailures = []\<rparr>
   \<and> length (results_queue (snd (lambda_handler test_event None empty_sinks))) = 0
   \<and> length (results_table (snd (lambda_handler test_event None empty_sinks))) = 0"
  by (simp add: lambda_handler_def test_event_def empty_sinks_def)

text \<open>
  C4. For an opportunity with at least one valid bid, the score_margin returned by
  select_winner is the winning score minus the runner-up score and is at least 0; with
  exactly one valid bid it is 0.

  On the fixture, with three valid bids, and on the fixture cut down to one bid,
  select_winner raises NotImplementedError: no result, hence no score_margin, is returned.
\<close>

theorem select_winner_margin_inputs_raise:
  "select_winner SAMPLE_OPPORTUNITY =
      Inl (NotImplementedError ''Task 2: Implement select_winner'')
   \<and> (\<nexists>w. select_winner SAMPLE_OPPORTUNITY = Inr (Some w))
   \<and> length (bids single_bid_opportunity) = 1
   \<and> select_winner single_bid_opportunity =
      Inl (NotImplementedError ''Task 2: Implement select_winner'')
   \<and> (\<nexists>w. select_winner single_bid_opportunity = Inr (Some w) \<and> score_margin w = 0)"
  by (simp add: select_winner_def single_bid_opportunity_def)

text \<open>
  C5. For an opportunity with no bids, select_winner and process_opportunity both return the
  absent result (None) and neither raises.

  On the fixture with the empty bid list both raise NotImplementedError; neither returns
  None.
\<close>

theorem no_bids_operations_raise:
  "bids no_bids_opportunity = []
   \<and> select_winner no_bids_opportunity =
      Inl (NotImplementedError ''Task 2: Implement select_winner'')
   \<and> select_winner no_bids_opportunity \<noteq> Inr None
   \<and> fst (process_opportunity no_bids_opportunity empty_sinks) =
      Inl (NotImplementedError ''Task 3: Implement process_opportunity'')
   \<and> fst (process_opportunity no_bids_opportunity empty_sinks) \<noteq> Inr None"
  by (simp add: select_winner_def process_opportunity_def no_bids_opportunity_def)







text \<open>
  C8. Each scoring factor is 1.0 when its key is absent from its table: a category pair not
  in RELEVANCE_MAP, an hour outside every interval of TIME_WINDOWS, a device type not in
  DEVICE_BONUS.

  For the \<^verbatim>\<open>fast_food\<close> bid on sports content at 15:00 on a tablet no table has an entry,
  so the documented score is the bid amount, 4.20; compute_score raises NotImplementedError
  and applies no factor at all.
\<close>

theorem compute_score_unlisted_keys_raises:
  "map_of RELEVANCE_MAP (content_category unlisted_opportunity, category bid_adv_002) = None
   \<and> [w \<leftarrow> TIME_WINDOWS. fst w \<le> 15 \<and> 15 < fst (snd w)] = []
   \<and> map_of DEVICE_BONUS (device_type unlisted_opportunity) = None
   \<and> spec_score 15 bid_adv_002 unlisted_opportunity = 4.20
   \<and> compute_score bid_adv_002 unlisted_opportunity =
        Inl (NotImplementedError ''Task 1: Implement compute_score'')
   \<and> compute_score bid_adv_002 unlisted_opportunity \<noteq> Inr 4.20"
  by (simp add: compute_score_def spec_score_def spec_relevance_multiplier_def
      spec_time_bonus_def spec_device_bonus_def RELEVANCE_MAP_def TIME_WINDOWS_def
      DEVICE_BONUS_def bid_adv_002_def unlisted_opportunity_def SAMPLE_OPPORTUNITY_def)

text \<open>
  C9. Some bid with a strictly lower amount is selected as winner over a bid with a higher
  amount because of its relevance multiplier: on sports content the 3.50 sportswear bid
  out-scores the 4.20 fast_food bid.

  On the fixture the documented scores are ordered that way (6.7375 against 5.775), but
  select_winner raises NotImplementedError: \<^verbatim>\<open>adv_001\<close> is not returned as the winner, and
  by the embedding no input makes select_winner return one.
\<close>

theorem select_winner_lower_bid_fixture_raises:
  "bid_amount bid_adv_001 < bid_amount bid_adv_002
   \<and> spec_score 20 bid_adv_001 SAMPLE_OPPORTUNITY = 6.7375
   \<and> spec_score 20 bid_adv_002 SAMPLE_OPPORTUNITY = 5.775
   \<and> select_winner SAMPLE_OPPORTUNITY =
        Inl (NotImplementedError ''Task 2: Implement select_winner'')
   \<and> (\<nexists>w. select_winner SAMPLE_OPPORTUNITY = Inr (Some w)
          \<and> winning_advertiser_id w = ''adv_001'')
   \<and> (\<nexists>opp w. select_winner opp = Inr (Some w))"
  by (simp add: select_winner_def spec_score_def spec_relevance_multiplier_def
      spec_time_bonus_def spec_device_bonus_def RELEVANCE_MAP_def TIME_WINDOWS_def
      DEVICE_BONUS_def bid_adv_001_def bid_adv_002_def SAMPLE_OPPORTUNITY_def)

end
